theory Spec2Isabelle
  imports Complex_Main
begin

section \<open>Errors\<close>

text \<open>
  Both operations of \<^verbatim>\<open>src/src/poi.py\<close> signal failure by raising.  Every raise is a
  value here.  The three \<^verbatim>\<open>ValueError\<close>s of the source differ only in their message,
  which is kept as a constructor together with the values the f-string interpolates:
  \<^item> \<open>CouldNotDecode\<close>: "We couldn't decode the address, ..." (line 52);
  \<^item> \<open>NoPlacesWithType t\<close>: "We couldn't find places with the type t" (line 72);
  \<^item> \<open>NoRoute src dest\<close>: "OSRM couldn't find a route between src and dest" (line 105).

  \<open>IndexError\<close> is what Python raises for a list or tuple index out of range.
  \<open>RequestException\<close> and \<open>JSONDecodeError\<close> are what \<^verbatim>\<open>requests.get\<close> and
  \<^verbatim>\<open>response.json()\<close> raise; the source catches neither.
\<close>

datatype message =
    CouldNotDecode
  | NoPlacesWithType string
  | NoRoute "real list" "real list"

datatype error =
    ValueError message
  | IndexError
  | RequestException
  | JSONDecodeError

text \<open>\<^verbatim>\<open>xs[i]\<close> for an index that is never negative (the source only uses 0 and a counter
  that starts at 0 and is incremented).\<close>

definition get_item :: "'a list \<Rightarrow> nat \<Rightarrow> error + 'a" where
  "get_item xs i = (if i < length xs then Inr (xs ! i) else Inl IndexError)"


section \<open>The responses of the two services\<close>

text \<open>
  The parsed JSON of both services is accessed by fixed keys.  Each dictionary with fixed
  keys is a record with one field per key the source reads; JSON arrays are lists.
  Numbers are never computed with (they are only moved and reordered), so they are reals.

  An HTTP response is its status code and what \<^verbatim>\<open>response.json()\<close> gives when it is
  called: the parsed body, or the exception of the parser.
\<close>

record 'a response =
  status_code :: int
  json :: "error + 'a"

text \<open>Nominatim, \<^verbatim>\<open>format=geocodejson\<close>:
  \<^verbatim>\<open>features[i].properties.geocoding.{osm_type, osm_id, label}\<close> and
  \<^verbatim>\<open>features[i].geometry.coordinates\<close>.\<close>

record geocoding =
  osm_type :: string
  osm_id :: int
  label :: string

record properties =
  geocoding :: geocoding

record geometry =
  coordinates :: "real list"

record feature =
  properties :: properties
  geometry :: geometry

record geocodejson =
  features :: "feature list"

text \<open>OSRM: \<^verbatim>\<open>code\<close>, \<^verbatim>\<open>routes[i].{distance, duration}\<close> and
  \<^verbatim>\<open>routes[i].legs[j].steps[k].maneuver.location\<close>.\<close>

record maneuver =
  location :: "real list"

record route_step =
  maneuver :: maneuver

record leg =
  steps :: "route_step list"

record osrm_route =
  distance :: real
  duration :: real
  legs :: "leg list"

record osrm_json =
  code :: string
  routes :: "osrm_route list"


section \<open>The class \<^verbatim>\<open>poi\<close>\<close>

text \<open>The attributes \<^verbatim>\<open>__geo_decode\<close> sets.  \<open>coordinates\<close> is the tuple
  \<^verbatim>\<open>tuple(place['geometry']['coordinates'])\<close>, (longitude, latitude); a tuple is a list
  here.  The field \<open>coordinates\<close> of the record \<open>geometry\<close> is written
  \<open>geometry.coordinates\<close> from here on.\<close>

record poi =
  address :: string
  osmid :: int
  coordinates :: "real list"

text \<open>The dictionary \<^verbatim>\<open>route_to\<close> returns, with the keys \<^verbatim>\<open>'route'\<close>, \<^verbatim>\<open>'length'\<close>
  and \<^verbatim>\<open>'duration'\<close> (the last two suffixed: \<open>length\<close> is the length of lists and
  \<open>duration\<close> a key of the OSRM response).\<close>

record route_dict =
  route :: "real list list"
  length_r :: real
  duration_r :: real


subsection \<open>\<^verbatim>\<open>__geo_decode\<close> and \<^verbatim>\<open>__init__\<close>\<close>

text \<open>The URL of line 49.\<close>

definition nominatim_url :: "string \<Rightarrow> string \<Rightarrow> string" where
  "nominatim_url name country =
     ''https://nominatim.openstreetmap.org/search?q='' @ name @ '' - '' @ country
       @ ''&format=geocodejson''"

text \<open>
  The loop of lines 67 to 72, entered with \<open>index\<close> and the \<open>place\<close> read at that index:
  \<^verbatim>\<open>
  while place['properties']['geocoding']['osm_type'] != osm_type:
      index += 1
      try:
          place = response_json['features'][index]
      except:
          raise ValueError(f"We couldn't find places with the type {osm_type}")
  \<close>
\<close>

function while_place :: "feature list \<Rightarrow> string \<Rightarrow> nat \<Rightarrow> feature \<Rightarrow> error + feature" where
  "while_place fs t index place =
     (if osm_type (geocoding (properties place)) \<noteq> t then
        (case get_item fs (index + 1) of
           Inl e \<Rightarrow> Inl (ValueError (NoPlacesWithType t))
         | Inr place' \<Rightarrow> while_place fs t (index + 1) place')
      else Inr place)"
  by pat_completeness auto
termination
  by (relation "measure (\<lambda>(fs, t, index, place). length fs - index)")
     (auto simp: get_item_def split: if_splits)

declare while_place.simps [simp del]

text \<open>
  \<^verbatim>\<open>__geo_decode\<close>, lines 45 to 76.  \<open>get\<close> is \<^verbatim>\<open>requests.get\<close>: what the network answers
  to a URL, a response or an exception.  The first candidate is read at line 65 with
  no guard; the later ones are read inside the loop under \<^verbatim>\<open>try\<close>.
\<close>

definition geo_decode ::
  "(string \<Rightarrow> error + geocodejson response) \<Rightarrow> string \<Rightarrow> string \<Rightarrow> string \<Rightarrow> error + poi" where
  "geo_decode get name country t =
     (case get (nominatim_url name country) of
        Inl e \<Rightarrow> Inl e
      | Inr response \<Rightarrow>
          if status_code response \<noteq> 200 then Inl (ValueError CouldNotDecode)
          else
            (case json response of
               Inl e \<Rightarrow> Inl e
             | Inr response_json \<Rightarrow>
                 (case get_item (features response_json) 0 of
                    Inl e \<Rightarrow> Inl e
                  | Inr place0 \<Rightarrow>
                      (case while_place (features response_json) t 0 place0 of
                         Inl e \<Rightarrow> Inl e
                       | Inr place \<Rightarrow>
                           Inr \<lparr>address = label (geocoding (properties place)),
                                osmid = osm_id (geocoding (properties place)),
                                coordinates = geometry.coordinates (geometry place)\<rparr>))))"

text \<open>\<^verbatim>\<open>poi(name, country, osm_type = "node")\<close>: the constructor only calls
  \<^verbatim>\<open>__geo_decode\<close>.\<close>

definition init :: "(string \<Rightarrow> error + geocodejson response) \<Rightarrow> string \<Rightarrow> string \<Rightarrow> string \<Rightarrow> error + poi" where
  "init get name country t = geo_decode get name country t"

definition init_default :: "(string \<Rightarrow> error + geocodejson response) \<Rightarrow> string \<Rightarrow> string \<Rightarrow> error + poi" where
  "init_default get name country = init get name country ''node''"


subsection \<open>\<^verbatim>\<open>route_to\<close>\<close>

text \<open>
  The URL of line 101.  \<open>str\<close> is Python's formatting of a float inside an f-string, which
  is no code of this repository and is a parameter.
\<close>

definition osrm_url :: "(real \<Rightarrow> string) \<Rightarrow> string \<Rightarrow> real \<Rightarrow> real \<Rightarrow> real \<Rightarrow> real \<Rightarrow> string" where
  "osrm_url str mode src0 src1 dest0 dest1 =
     ''http://router.project-osrm.org/route/v1/'' @ mode @ ''/'' @ str src0 @ '','' @ str src1
       @ '';'' @ str dest0 @ '','' @ str dest1 @ ''?steps=true''"

text \<open>
  The loop of lines 114 to 118, with the list \<^verbatim>\<open>route_coords\<close> it appends to:
  \<^verbatim>\<open>
  for route_step in steps:
      maneuver = route_step["maneuver"]
      location = maneuver["location"]
      location = location[::-1]
      route_coords.append(tuple(location))
  \<close>
  The slice \<^verbatim>\<open>[::-1]\<close> reverses the whole list, whatever its length.
\<close>

fun for_route_step :: "route_step list \<Rightarrow> real list list \<Rightarrow> real list list" where
  "for_route_step [] route_coords = route_coords"
| "for_route_step (route_step # rest) route_coords =
     for_route_step rest (route_coords @ [rev (location (maneuver route_step))])"

text \<open>
  \<^verbatim>\<open>route_to\<close>, lines 95 to 122.  The four tuple reads \<^verbatim>\<open>src[0]\<close>, \<^verbatim>\<open>src[1]\<close>,
  \<^verbatim>\<open>dest[0]\<close>, \<^verbatim>\<open>dest[1]\<close> happen while the URL is formatted, before the request.  The
  status code of the HTTP response is never read.
\<close>

definition route_to ::
  "(real \<Rightarrow> string) \<Rightarrow> (string \<Rightarrow> error + osrm_json response) \<Rightarrow> poi \<Rightarrow> poi \<Rightarrow> string
     \<Rightarrow> error + route_dict" where
  "route_to str get self destination mode =
     (let src = coordinates self; dest = coordinates destination in
      (case get_item src 0 of Inl e \<Rightarrow> Inl e | Inr src0 \<Rightarrow>
      (case get_item src 1 of Inl e \<Rightarrow> Inl e | Inr src1 \<Rightarrow>
      (case get_item dest 0 of Inl e \<Rightarrow> Inl e | Inr dest0 \<Rightarrow>
      (case get_item dest 1 of Inl e \<Rightarrow> Inl e | Inr dest1 \<Rightarrow>
      (case get (osrm_url str mode src0 src1 dest0 dest1) of Inl e \<Rightarrow> Inl e | Inr response \<Rightarrow>
      (case json response of Inl e \<Rightarrow> Inl e | Inr response_json \<Rightarrow>
         if code response_json \<noteq> ''Ok'' then Inl (ValueError (NoRoute src dest))
         else
           (case get_item (routes response_json) 0 of Inl e \<Rightarrow> Inl e | Inr route0 \<Rightarrow>
              (let cost = distance route0; duration0 = duration route0 in
               (case get_item (legs route0) 0 of Inl e \<Rightarrow> Inl e | Inr legs0 \<Rightarrow>
                  (let steps0 = steps legs0 in
                   Inr \<lparr>route = for_route_step steps0 [],
                        length_r = cost, duration_r = duration0\<rparr>)))))))))))"

text \<open>\<^verbatim>\<open>route_to(destination)\<close> with the default \<^verbatim>\<open>mode = "driving"\<close>.\<close>

definition route_to_default ::
  "(real \<Rightarrow> string) \<Rightarrow> (string \<Rightarrow> error + osrm_json response) \<Rightarrow> poi \<Rightarrow> poi \<Rightarrow> error + route_dict" where
  "route_to_default str get self destination = route_to str get self destination ''driving''"


subsection \<open>\<^verbatim>\<open>__eq__\<close> and \<^verbatim>\<open>__hash__\<close>\<close>

text \<open>Lines 124 to 128.  \<open>hash_poi\<close> is the method \<^verbatim>\<open>__hash__\<close> itself: what the built-in
  \<^verbatim>\<open>hash\<close> of the interpreter makes of the returned integer is not modelled.\<close>

definition eq :: "poi \<Rightarrow> poi \<Rightarrow> bool" where
  "eq self other = (osmid self = osmid other)"

definition hash_poi :: "poi \<Rightarrow> int" where
  "hash_poi self = osmid self"


section \<open>Objects in a store\<close>

text \<open>
  Python passes objects by reference, and a \<^verbatim>\<open>poi\<close> is an ordinary mutable object.  To
  say what a call does to its arguments, objects live in a store: a list of objects, the
  address of an object being its position.  Allocation appends, so a new object gets an
  address no object had before.  An address that holds no \<^verbatim>\<open>poi\<close> has no attribute
  \<^verbatim>\<open>coordinates\<close>.
\<close>

datatype obj = Poi poi | Dict route_dict

type_synonym store = "obj list"

datatype fault = Raised error | AttributeError

definition get_poi :: "store \<Rightarrow> nat \<Rightarrow> poi option" where
  "get_poi h a = (if a < length h then (case h ! a of Poi p \<Rightarrow> Some p | Dict d \<Rightarrow> None) else None)"

definition get_dict :: "store \<Rightarrow> nat \<Rightarrow> route_dict option" where
  "get_dict h a = (if a < length h then (case h ! a of Poi p \<Rightarrow> None | Dict d \<Rightarrow> Some d) else None)"

definition alloc :: "store \<Rightarrow> obj \<Rightarrow> nat \<times> store" where
  "alloc h ob = (length h, h @ [ob])"

text \<open>
  \<^verbatim>\<open>self.route_to(destination, mode)\<close> on the store: it reads the attribute
  \<^verbatim>\<open>coordinates\<close> of both objects (lines 96 and 97), assigns to no attribute of either,
  and the dictionary literal of line 120 is a new object.  The result is the address of
  that dictionary, or the exception, and the store after the call.
\<close>

definition route_to_store ::
  "(real \<Rightarrow> string) \<Rightarrow> (string \<Rightarrow> error + osrm_json response) \<Rightarrow> store \<Rightarrow> nat \<Rightarrow> nat \<Rightarrow> string
     \<Rightarrow> (fault + nat) \<times> store" where
  "route_to_store str get h self destination mode =
     (case get_poi h self of
        None \<Rightarrow> (Inl AttributeError, h)
      | Some s \<Rightarrow>
          (case get_poi h destination of
             None \<Rightarrow> (Inl AttributeError, h)
           | Some d \<Rightarrow>
               (case route_to str get s d mode of
                  Inl e \<Rightarrow> (Inl (Raised e), h)
                | Inr r \<Rightarrow> (case alloc h (Dict r) of (a, h') \<Rightarrow> (Inr a, h')))))"


section \<open>Fixtures\<close>

text \<open>
  Concrete responses on which the theorems below are evaluated.  \<open>answers u r\<close> is a
  network that answers the URL \<open>u\<close> with the response \<open>r\<close> and fails on any other
  URL; \<open>always r\<close> answers every URL with \<open>r\<close>.
\<close>

definition answers :: "string \<Rightarrow> 'a response \<Rightarrow> string \<Rightarrow> error + 'a response" where
  "answers u r url = (if url = u then Inr r else Inl RequestException)"

definition always :: "'a response \<Rightarrow> string \<Rightarrow> error + 'a response" where
  "always r url = Inr r"

definition uoft_url :: string where
  "uoft_url =
     ''https://nominatim.openstreetmap.org/search?q=university of toronto - canada&format=geocodejson''"

definition uoft_way :: feature where
  "uoft_way =
     \<lparr>properties = \<lparr>geocoding = \<lparr>osm_type = ''way'', osm_id = 678,
        label = ''University of Toronto, St George Street''\<rparr>\<rparr>,
      geometry = \<lparr>geometry.coordinates = [-79.3957, 43.6629]\<rparr>\<rparr>"

definition uoft_node :: feature where
  "uoft_node =
     \<lparr>properties = \<lparr>geocoding = \<lparr>osm_type = ''node'', osm_id = 12345,
        label = ''University of Toronto''\<rparr>\<rparr>,
      geometry = \<lparr>geometry.coordinates = [-79.3973638, 43.6620257]\<rparr>\<rparr>"

definition uoft_node_stale :: feature where
  "uoft_node_stale =
     \<lparr>properties = \<lparr>geocoding = \<lparr>osm_type = ''node'', osm_id = 12345,
        label = ''U of T''\<rparr>\<rparr>,
      geometry = \<lparr>geometry.coordinates = [-79.3973638, 43.6620257]\<rparr>\<rparr>"

definition ok_with :: "feature list \<Rightarrow> geocodejson response" where
  "ok_with fs = \<lparr>status_code = 200, json = Inr \<lparr>features = fs\<rparr>\<rparr>"

definition uoft :: poi where
  "uoft = \<lparr>address = ''University of Toronto'', osmid = 12345,
           coordinates = [-79.3973638, 43.6620257]\<rparr>"

definition cn_tower :: poi where
  "cn_tower = \<lparr>address = ''CN Tower'', osmid = 999, coordinates = [-79.3871, 43.6426]\<rparr>"

definition step_at :: "real list \<Rightarrow> route_step" where
  "step_at loc = \<lparr>maneuver = \<lparr>location = loc\<rparr>\<rparr>"

definition osrm_ok :: "real \<Rightarrow> real \<Rightarrow> real list list \<Rightarrow> osrm_json response" where
  "osrm_ok d t locs =
     \<lparr>status_code = 200,
      json = Inr \<lparr>code = ''Ok'',
                  routes = [\<lparr>distance = d, duration = t,
                             legs = [\<lparr>steps = map step_at locs\<rparr>]\<rparr>]\<rparr>\<rparr>"

definition osrm_no_route :: "int \<Rightarrow> osrm_json response" where
  "osrm_no_route sc = \<lparr>status_code = sc, json = Inr \<lparr>code = ''NoRoute'', routes = []\<rparr>\<rparr>"

definition str0 :: "real \<Rightarrow> string" where
  "str0 x = ''0''"


section \<open>Properties of \<^verbatim>\<open>__geo_decode\<close>\<close>

text \<open>The loop, entered at a valid index with the candidate stored there, finds the first
  candidate of the requested type at or after that index, and raises the
  \<^verbatim>\<open>ValueError\<close> of line 72 when there is none.\<close>

lemma while_place_find:
  "index < length fs \<Longrightarrow> place = fs ! index \<Longrightarrow>
   while_place fs t index place =
     (case find (\<lambda>f. osm_type (geocoding (properties f)) = t) (drop index fs) of
        None \<Rightarrow> Inl (ValueError (NoPlacesWithType t))
      | Some f \<Rightarrow> Inr f)"
proof (induction fs t index place rule: while_place.induct)
  case (1 fs t index place)
  have d: "drop index fs = place # drop (index + 1) fs"
    using "1.prems" by (simp add: Cons_nth_drop_Suc)
  show ?case
  proof (cases "osm_type (geocoding (properties place)) = t")
    case True
    then show ?thesis by (subst while_place.simps) (simp add: d)
  next
    case False
    show ?thesis
    proof (cases "index + 1 < length fs")
      case True
      then have g: "get_item fs (index + 1) = Inr (fs ! (index + 1))"
        by (simp add: get_item_def)
      have "while_place fs t (index + 1) (fs ! (index + 1)) =
          (case find (\<lambda>f. osm_type (geocoding (properties f)) = t) (drop (index + 1) fs) of
             None \<Rightarrow> Inl (ValueError (NoPlacesWithType t)) | Some f \<Rightarrow> Inr f)"
        using "1.IH" [OF False g True] by simp
      then show ?thesis
        using False g by (subst while_place.simps) (simp add: d)
    next
      case F2: False
      then have g: "get_item fs (index + 1) = Inl IndexError"
        by (simp add: get_item_def)
      from F2 have "drop (index + 1) fs = []" by simp
      then show ?thesis
        using False g by (subst while_place.simps) (simp add: d)
    qed
  qed
qed

lemma find_first:
  "\<forall>y \<in> set pre. \<not> P y \<Longrightarrow> P x \<Longrightarrow> find P (pre @ x # rest) = Some x"
  by (induction pre) simp_all

text \<open>On a successful response with at least one candidate, the whole of
  \<^verbatim>\<open>__geo_decode\<close> is a search for the first candidate of the requested type.\<close>

lemma geo_decode_nonempty:
  assumes "get (nominatim_url name country) = Inr response"
    and "status_code response = 200"
    and "json response = Inr response_json"
    and "features response_json \<noteq> []"
  shows "geo_decode get name country t =
     (case find (\<lambda>f. osm_type (geocoding (properties f)) = t) (features response_json) of
        None \<Rightarrow> Inl (ValueError (NoPlacesWithType t))
      | Some place \<Rightarrow>
          Inr \<lparr>address = label (geocoding (properties place)),
               osmid = osm_id (geocoding (properties place)),
               coordinates = geometry.coordinates (geometry place)\<rparr>)"
proof -
  from assms(4) have l: "0 < length (features response_json)" by simp
  have w: "while_place (features response_json) t 0 (features response_json ! 0) =
      (case find (\<lambda>f. osm_type (geocoding (properties f)) = t) (features response_json) of
         None \<Rightarrow> Inl (ValueError (NoPlacesWithType t)) | Some f \<Rightarrow> Inr f)"
    using while_place_find [OF l refl, of t] by simp
  show ?thesis
    using assms(1-3) l
    by (simp add: geo_decode_def get_item_def w split: option.split)
qed

text \<open>On a successful response with no candidate at all, line 65 raises.\<close>

lemma geo_decode_empty:
  assumes "get (nominatim_url name country) = Inr response"
    and "status_code response = 200"
    and "json response = Inr response_json"
    and "features response_json = []"
  shows "geo_decode get name country t = Inl IndexError"
  using assms by (simp add: geo_decode_def get_item_def)

text \<open>On a successful response with candidates, none of the requested type, the loop runs
  off the end of the list and the \<^verbatim>\<open>except\<close> clause raises the \<^verbatim>\<open>ValueError\<close>.\<close>

lemma geo_decode_no_match_nonempty:
  assumes "get (nominatim_url name country) = Inr response"
    and "status_code response = 200"
    and "json response = Inr response_json"
    and "features response_json \<noteq> []"
    and "\<forall>f \<in> set (features response_json). osm_type (geocoding (properties f)) \<noteq> t"
  shows "geo_decode get name country t = Inl (ValueError (NoPlacesWithType t))"
proof -
  have "find (\<lambda>f. osm_type (geocoding (properties f)) = t) (features response_json) = None"
    using assms(5) by (simp add: find_None_iff)
  then show ?thesis
    using geo_decode_nonempty [of get name country response response_json t, OF assms(1-4)] by simp
qed

text \<open>
  Claim C1.  Whenever the geocoding service answers with success and the candidate list
  holds at least one candidate of the requested type, the list splits into the candidates
  ranked higher, all of another type, the first candidate of the requested type, and the
  rest; and the \<^verbatim>\<open>poi\<close> is built from that first candidate: its label, its identifier
  and its coordinates.  The candidates ranked higher are skipped, and the ones after
  have no influence.
\<close>

theorem geo_decode_first_match:
  assumes "get (nominatim_url name country) = Inr response"
    and "status_code response = 200"
    and "json response = Inr response_json"
    and "\<exists>f \<in> set (features response_json). osm_type (geocoding (properties f)) = t"
  shows "\<exists>pre place rest.
           features response_json = pre @ place # rest
         \<and> (\<forall>f \<in> set pre. osm_type (geocoding (properties f)) \<noteq> t)
         \<and> osm_type (geocoding (properties place)) = t
         \<and> geo_decode get name country t =
             Inr \<lparr>address = label (geocoding (properties place)),
                  osmid = osm_id (geocoding (properties place)),
                  coordinates = geometry.coordinates (geometry place)\<rparr>"
proof -
  let ?P = "\<lambda>f. osm_type (geocoding (properties f)) = t"
  from assms(4) obtain pre place rest where
    d: "features response_json = pre @ place # rest" and
    p: "?P place" and n: "\<forall>f \<in> set pre. \<not> ?P f"
    using split_list_first_prop [of "features response_json" ?P] by blast
  from d have ne: "features response_json \<noteq> []" by simp
  have f: "find ?P (features response_json) = Some place"
    unfolding d using n p by (rule find_first)
  have "geo_decode get name country t =
             Inr \<lparr>address = label (geocoding (properties place)),
                  osmid = osm_id (geocoding (properties place)),
                  coordinates = geometry.coordinates (geometry place)\<rparr>"
    using geo_decode_nonempty [of get name country response response_json t, OF assms(1-3) ne] f by simp
  with d p n show ?thesis by blast
qed

text \<open>The witness: a way ranked first, then two nodes.  The first node is selected.\<close>

theorem geo_decode_first_match_witness:
  "answers uoft_url (ok_with [uoft_way, uoft_node, uoft_node_stale])
       (nominatim_url ''university of toronto'' ''canada'')
     = Inr (ok_with [uoft_way, uoft_node, uoft_node_stale])
   \<and> status_code (ok_with [uoft_way, uoft_node, uoft_node_stale]) = 200
   \<and> json (ok_with [uoft_way, uoft_node, uoft_node_stale])
        = Inr \<lparr>features = [uoft_way, uoft_node, uoft_node_stale]\<rparr>
   \<and> osm_type (geocoding (properties uoft_node)) = ''node''
   \<and> geo_decode (answers uoft_url (ok_with [uoft_way, uoft_node, uoft_node_stale]))
        ''university of toronto'' ''canada'' ''node''
     = Inr \<lparr>address = ''University of Toronto'', osmid = 12345,
            coordinates = [-79.3973638, 43.6620257]\<rparr>"
proof -
  let ?fs = "[uoft_way, uoft_node, uoft_node_stale]"
  let ?get = "answers uoft_url (ok_with ?fs)"
  have h1: "?get (nominatim_url ''university of toronto'' ''canada'') = Inr (ok_with ?fs)"
    by (simp add: answers_def uoft_url_def nominatim_url_def)
  have h2: "status_code (ok_with ?fs) = 200"
    by (simp add: ok_with_def)
  have h3: "json (ok_with ?fs) = Inr \<lparr>features = ?fs\<rparr>"
    by (simp add: ok_with_def)
  have k: "osm_type (geocoding (properties uoft_node)) = ''node''"
    by (simp add: uoft_node_def)
  have h4: "\<exists>f \<in> set (features \<lparr>features = ?fs\<rparr>). osm_type (geocoding (properties f)) = ''node''"
    using k by simp
  obtain pre place rest where
    d: "features \<lparr>features = ?fs\<rparr> = pre @ place # rest" and
    n: "\<forall>f \<in> set pre. osm_type (geocoding (properties f)) \<noteq> ''node''" and
    p: "osm_type (geocoding (properties place)) = ''node''" and
    r: "geo_decode ?get ''university of toronto'' ''canada'' ''node'' =
             Inr \<lparr>address = label (geocoding (properties place)),
                  osmid = osm_id (geocoding (properties place)),
                  coordinates = geometry.coordinates (geometry place)\<rparr>"
    using geo_decode_first_match [of ?get "''university of toronto''" "''canada''" "ok_with ?fs"
        "\<lparr>features = ?fs\<rparr>" "''node''", OF h1 h2 h3 h4] by blast
  have w: "osm_type (geocoding (properties uoft_way)) \<noteq> ''node''"
    by (simp add: uoft_way_def)
  from d n p k w have "place = uoft_node"
    by (cases pre; cases "tl pre") (auto simp: Cons_eq_append_conv)
  with r have "geo_decode ?get ''university of toronto'' ''canada'' ''node'' =
      Inr \<lparr>address = ''University of Toronto'', osmid = 12345,
           coordinates = [-79.3973638, 43.6620257]\<rparr>"
    by (simp add: uoft_node_def)
  with h1 h2 h3 k show ?thesis by blast
qed

text \<open>
  Claim C2.  The claim asks that a candidate list with no candidate of the requested type,
  the empty list included, makes the resolution fail with its own error (the
  \<^verbatim>\<open>ValueError\<close> of line 72) and never with an indexing fault.  The source guards the
  reads inside the loop (lines 69 to 72) and not the first read (line 65): on the empty
  list it raises \<^verbatim>\<open>IndexError\<close>, while on a list holding only a way, asked for a node,
  it raises the \<^verbatim>\<open>ValueError\<close>.  The two cases do not behave alike.
\<close>

theorem geo_decode_empty_IndexError:
  "geo_decode (answers uoft_url (ok_with [])) ''university of toronto'' ''canada'' ''node''
     = Inl IndexError
   \<and> geo_decode (answers uoft_url (ok_with [uoft_way])) ''university of toronto'' ''canada'' ''node''
     = Inl (ValueError (NoPlacesWithType ''node''))"
proof -
  have u: "nominatim_url ''university of toronto'' ''canada'' = uoft_url"
    by (simp add: uoft_url_def nominatim_url_def)
  have a: "geo_decode (answers uoft_url (ok_with [])) ''university of toronto'' ''canada'' ''node''
     = Inl IndexError"
    by (simp add: geo_decode_def u answers_def ok_with_def get_item_def)
  have b: "geo_decode (answers uoft_url (ok_with [uoft_way])) ''university of toronto'' ''canada'' ''node''
     = Inl (ValueError (NoPlacesWithType ''node''))"
    by (simp add: geo_decode_def u answers_def ok_with_def get_item_def while_place.simps uoft_way_def)
  from a b show ?thesis by (rule conjI)
qed

text \<open>
  Claim C3.  When the HTTP status of the geocoding response is not 200, the resolution
  raises the \<^verbatim>\<open>ValueError\<close> of line 52, whatever \<^verbatim>\<open>response.json()\<close> would give:
  the body plays no part, it is not parsed.
\<close>

theorem geo_decode_bad_status:
  assumes "get (nominatim_url name country) = Inr \<lparr>status_code = sc, json = body\<rparr>"
    and "sc \<noteq> 200"
  shows "geo_decode get name country t = Inl (ValueError CouldNotDecode)"
  using assms by (simp add: geo_decode_def)

text \<open>The witness: status 404 and a body that is no JSON.  Had the body been parsed, the
  call would have raised the parser's exception.\<close>

theorem geo_decode_bad_status_witness:
  "answers uoft_url \<lparr>status_code = 404, json = Inl JSONDecodeError\<rparr>
       (nominatim_url ''university of toronto'' ''canada'')
     = Inr \<lparr>status_code = 404, json = Inl JSONDecodeError\<rparr>
   \<and> (404::int) \<noteq> 200
   \<and> geo_decode (answers uoft_url \<lparr>status_code = 404, json = Inl JSONDecodeError\<rparr>)
        ''university of toronto'' ''canada'' ''node''
     = Inl (ValueError CouldNotDecode)"
proof -
  have h1: "answers uoft_url \<lparr>status_code = 404, json = Inl JSONDecodeError\<rparr>
       (nominatim_url ''university of toronto'' ''canada'')
     = Inr \<lparr>status_code = 404, json = Inl JSONDecodeError\<rparr>"
    by (simp add: answers_def uoft_url_def nominatim_url_def)
  have h2: "(404::int) \<noteq> 200" by simp
  show ?thesis
    using h1 h2 geo_decode_bad_status [of "answers uoft_url \<lparr>status_code = 404, json = Inl JSONDecodeError\<rparr>"
        "''university of toronto''" "''canada''" 404 "Inl JSONDecodeError" "''node''", OF h1 h2] by simp
qed


section \<open>Properties of \<^verbatim>\<open>route_to\<close>\<close>

text \<open>The loop appends, for every step in order, the reversed maneuver location.\<close>

lemma for_route_step_map:
  "for_route_step ss acc = acc @ map (\<lambda>s. rev (location (maneuver s))) ss"
  by (induction ss arbitrary: acc) simp_all

text \<open>
  What \<^verbatim>\<open>route_to\<close> returns once the routing service has answered with a body that
  parses: both places have at least two coordinates, so the URL can be formatted, and the
  request is answered with HTTP status \<open>sc\<close>, which is arbitrary.
\<close>

lemma route_to_answered:
  assumes "2 \<le> length (coordinates self)"
    and "2 \<le> length (coordinates destination)"
    and "get (osrm_url str mode (coordinates self ! 0) (coordinates self ! 1)
                (coordinates destination ! 0) (coordinates destination ! 1))
           = Inr \<lparr>status_code = sc, json = Inr response_json\<rparr>"
  shows "route_to str get self destination mode =
     (if code response_json \<noteq> ''Ok''
      then Inl (ValueError (NoRoute (coordinates self) (coordinates destination)))
      else (case routes response_json of
              [] \<Rightarrow> Inl IndexError
            | route0 # other_routes \<Rightarrow>
                (case legs route0 of
                   [] \<Rightarrow> Inl IndexError
                 | leg0 # other_legs \<Rightarrow>
                     Inr \<lparr>route = map (\<lambda>s. rev (location (maneuver s))) (steps leg0),
                          length_r = distance route0,
                          duration_r = duration route0\<rparr>)))"
proof -
  from assms(1) have s: "0 < length (coordinates self)" "1 < length (coordinates self)"
    by linarith+
  from assms(2) have d: "0 < length (coordinates destination)" "1 < length (coordinates destination)"
    by linarith+
  show ?thesis
    using s d assms(3)
    by (simp add: route_to_def get_item_def Let_def for_route_step_map
             split: list.split)
qed

text \<open>
  Claim C4.  When the body of the routing response carries a \<^verbatim>\<open>code\<close> other than
  \<^verbatim>\<open>"Ok"\<close>, \<^verbatim>\<open>route_to\<close> raises the \<^verbatim>\<open>ValueError\<close> of line 105 and returns no
  route.  The HTTP status \<open>sc\<close> of the response is arbitrary: the decision rests on the
  code inside the body alone.
\<close>

theorem route_to_code_not_Ok:
  assumes "2 \<le> length (coordinates self)"
    and "2 \<le> length (coordinates destination)"
    and "get (osrm_url str mode (coordinates self ! 0) (coordinates self ! 1)
                (coordinates destination ! 0) (coordinates destination ! 1))
           = Inr \<lparr>status_code = sc, json = Inr response_json\<rparr>"
    and "code response_json \<noteq> ''Ok''"
  shows "route_to str get self destination mode =
           Inl (ValueError (NoRoute (coordinates self) (coordinates destination)))"
  using route_to_answered [of self destination get str mode sc response_json, OF assms(1-3)] assms(4)
  by simp

text \<open>The witness: HTTP status 200 with the code \<^verbatim>\<open>"NoRoute"\<close> in the body still
  raises.\<close>

theorem route_to_code_not_Ok_witness:
  "(2::nat) \<le> length (coordinates uoft) \<and> 2 \<le> length (coordinates cn_tower)
   \<and> always (osrm_no_route 200)
        (osrm_url str0 ''driving'' (coordinates uoft ! 0) (coordinates uoft ! 1)
           (coordinates cn_tower ! 0) (coordinates cn_tower ! 1))
       = Inr \<lparr>status_code = 200, json = Inr \<lparr>code = ''NoRoute'', routes = []\<rparr>\<rparr>
   \<and> code \<lparr>code = ''NoRoute'', routes = []\<rparr> \<noteq> ''Ok''
   \<and> route_to str0 (always (osrm_no_route 200)) uoft cn_tower ''driving'' =
        Inl (ValueError (NoRoute [-79.3973638, 43.6620257] [-79.3871, 43.6426]))"
proof -
  have h1: "2 \<le> length (coordinates uoft)" by (simp add: uoft_def)
  have h2: "2 \<le> length (coordinates cn_tower)" by (simp add: cn_tower_def)
  have h3: "always (osrm_no_route 200)
        (osrm_url str0 ''driving'' (coordinates uoft ! 0) (coordinates uoft ! 1)
           (coordinates cn_tower ! 0) (coordinates cn_tower ! 1))
       = Inr \<lparr>status_code = 200, json = Inr \<lparr>code = ''NoRoute'', routes = []\<rparr>\<rparr>"
    by (simp add: always_def osrm_no_route_def)
  have h4: "code \<lparr>code = ''NoRoute'', routes = []\<rparr> \<noteq> ''Ok''" by simp
  have "route_to str0 (always (osrm_no_route 200)) uoft cn_tower ''driving'' =
        Inl (ValueError (NoRoute (coordinates uoft) (coordinates cn_tower)))"
    using route_to_code_not_Ok [of uoft cn_tower "always (osrm_no_route 200)" str0 "''driving''"
        200 "\<lparr>code = ''NoRoute'', routes = []\<rparr>", OF h1 h2 h3 h4] .
  then have "route_to str0 (always (osrm_no_route 200)) uoft cn_tower ''driving'' =
        Inl (ValueError (NoRoute [-79.3973638, 43.6620257] [-79.3871, 43.6426]))"
    by (simp add: uoft_def cn_tower_def)
  with h1 h2 h3 h4 show ?thesis by blast
qed

text \<open>
  Claim C5.  On an accepted routing response (code \<^verbatim>\<open>"Ok"\<close>, a first route, a first
  leg), the returned path holds, for every step of that leg and in the order of the steps,
  the reversed maneuver location; a location that is a pair (longitude, latitude) becomes
  (latitude, longitude).
\<close>

theorem route_to_path:
  assumes "2 \<le> length (coordinates self)"
    and "2 \<le> length (coordinates destination)"
    and "get (osrm_url str mode (coordinates self ! 0) (coordinates self ! 1)
                (coordinates destination ! 0) (coordinates destination ! 1))
           = Inr \<lparr>status_code = sc, json = Inr response_json\<rparr>"
    and "code response_json = ''Ok''"
    and "routes response_json = route0 # other_routes"
    and "legs route0 = leg0 # other_legs"
  shows "\<exists>r. route_to str get self destination mode = Inr r
           \<and> route r = map (\<lambda>s. rev (location (maneuver s))) (steps leg0)
           \<and> length (route r) = length (steps leg0)
           \<and> (\<forall>i < length (steps leg0). \<forall>lon lat.
                 location (maneuver (steps leg0 ! i)) = [lon, lat] \<longrightarrow> route r ! i = [lat, lon])"
proof -
  have "route_to str get self destination mode =
      Inr \<lparr>route = map (\<lambda>s. rev (location (maneuver s))) (steps leg0),
           length_r = distance route0, duration_r = duration route0\<rparr>"
    using route_to_answered [of self destination get str mode sc response_json, OF assms(1-3)]
      assms(4-6) by simp
  then show ?thesis by simp
qed

text \<open>The witness is the example of the specification: the maneuver locations
  \<open>[[-79.40, 43.66], [-79.38, 43.65]]\<close> give the path
  \<open>[(43.66, -79.40), (43.65, -79.38)]\<close>.\<close>

theorem route_to_path_witness:
  "(2::nat) \<le> length (coordinates uoft) \<and> 2 \<le> length (coordinates cn_tower)
   \<and> always (osrm_ok 2500 300 [[-79.40, 43.66], [-79.38, 43.65]])
        (osrm_url str0 ''driving'' (coordinates uoft ! 0) (coordinates uoft ! 1)
           (coordinates cn_tower ! 0) (coordinates cn_tower ! 1))
       = Inr \<lparr>status_code = 200,
              json = Inr \<lparr>code = ''Ok'',
                routes = [\<lparr>distance = 2500, duration = 300,
                  legs = [\<lparr>steps = [step_at [-79.40, 43.66], step_at [-79.38, 43.65]]\<rparr>]\<rparr>]\<rparr>\<rparr>
   \<and> (\<exists>r. route_to str0 (always (osrm_ok 2500 300 [[-79.40, 43.66], [-79.38, 43.65]]))
              uoft cn_tower ''driving'' = Inr r
          \<and> route r = [[43.66, -79.40], [43.65, -79.38]])"
proof -
  let ?get = "always (osrm_ok 2500 300 [[-79.40, 43.66], [-79.38, 43.65]])"
  let ?leg = "\<lparr>steps = [step_at [-79.40, 43.66], step_at [-79.38, 43.65]]\<rparr>"
  let ?route = "\<lparr>distance = 2500, duration = 300, legs = [?leg]\<rparr>"
  let ?json = "\<lparr>code = ''Ok'', routes = [?route]\<rparr>"
  have h1: "2 \<le> length (coordinates uoft)" by (simp add: uoft_def)
  have h2: "2 \<le> length (coordinates cn_tower)" by (simp add: cn_tower_def)
  have h3: "?get (osrm_url str0 ''driving'' (coordinates uoft ! 0) (coordinates uoft ! 1)
           (coordinates cn_tower ! 0) (coordinates cn_tower ! 1))
       = Inr \<lparr>status_code = 200, json = Inr ?json\<rparr>"
    by (simp add: always_def osrm_ok_def)
  have h4: "code ?json = ''Ok''" by simp
  have h5: "routes ?json = ?route # []" by simp
  have h6: "legs ?route = ?leg # []" by simp
  obtain r where r: "route_to str0 ?get uoft cn_tower ''driving'' = Inr r"
    and p: "route r = map (\<lambda>s. rev (location (maneuver s))) (steps ?leg)"
    using route_to_path [of uoft cn_tower ?get str0 "''driving''" 200 ?json ?route "[]" ?leg "[]",
        OF h1 h2 h3 h4 h5 h6] by blast
  from p have "route r = [[43.66, -79.40], [43.65, -79.38]]"
    by (simp add: step_at_def)
  with r h1 h2 h3 show ?thesis by blast
qed

text \<open>
  Claim C6.  On an accepted routing response, \<^verbatim>\<open>route_to\<close> takes the first route and
  the first leg of that route: the returned dictionary carries the distance of the first
  route as its length, the duration of the first route as its duration, and the converted
  path of the first leg.  The other routes and the other legs play no part.
\<close>

theorem route_to_first_route_first_leg:
  assumes "2 \<le> length (coordinates self)"
    and "2 \<le> length (coordinates destination)"
    and "get (osrm_url str mode (coordinates self ! 0) (coordinates self ! 1)
                (coordinates destination ! 0) (coordinates destination ! 1))
           = Inr \<lparr>status_code = sc, json = Inr response_json\<rparr>"
    and "code response_json = ''Ok''"
    and "routes response_json = route0 # other_routes"
    and "legs route0 = leg0 # other_legs"
  shows "route_to str get self destination mode =
      Inr \<lparr>route = map (\<lambda>s. rev (location (maneuver s))) (steps leg0),
           length_r = distance route0,
           duration_r = duration route0\<rparr>"
  using route_to_answered [of self destination get str mode sc response_json, OF assms(1-3)]
    assms(4-6) by simp

text \<open>The witness: two routes, the first with two legs.  Only the first leg of the first
  route is returned.\<close>

theorem route_to_first_route_first_leg_witness:
  "(2::nat) \<le> length (coordinates uoft) \<and> 2 \<le> length (coordinates cn_tower)
   \<and> always \<lparr>status_code = 200,
          json = Inr \<lparr>code = ''Ok'',
            routes = [\<lparr>distance = 2500, duration = 300,
                        legs = [\<lparr>steps = [step_at [1, 2]]\<rparr>, \<lparr>steps = [step_at [3, 4]]\<rparr>]\<rparr>,
                      \<lparr>distance = 9000, duration = 900,
                        legs = [\<lparr>steps = [step_at [5, 6]]\<rparr>]\<rparr>]\<rparr>\<rparr>
        (osrm_url str0 ''driving'' (coordinates uoft ! 0) (coordinates uoft ! 1)
           (coordinates cn_tower ! 0) (coordinates cn_tower ! 1))
       = Inr \<lparr>status_code = 200,
          json = Inr \<lparr>code = ''Ok'',
            routes = [\<lparr>distance = 2500, duration = 300,
                        legs = [\<lparr>steps = [step_at [1, 2]]\<rparr>, \<lparr>steps = [step_at [3, 4]]\<rparr>]\<rparr>,
                      \<lparr>distance = 9000, duration = 900,
                        legs = [\<lparr>steps = [step_at [5, 6]]\<rparr>]\<rparr>]\<rparr>\<rparr>
   \<and> route_to str0
        (always \<lparr>status_code = 200,
          json = Inr \<lparr>code = ''Ok'',
            routes = [\<lparr>distance = 2500, duration = 300,
                        legs = [\<lparr>steps = [step_at [1, 2]]\<rparr>, \<lparr>steps = [step_at [3, 4]]\<rparr>]\<rparr>,
                      \<lparr>distance = 9000, duration = 900,
                        legs = [\<lparr>steps = [step_at [5, 6]]\<rparr>]\<rparr>]\<rparr>\<rparr>)
        uoft cn_tower ''driving''
       = Inr \<lparr>route = [[2, 1]], length_r = 2500, duration_r = 300\<rparr>"
proof -
  let ?leg = "\<lparr>steps = [step_at [1, 2]]\<rparr>"
  let ?leg2 = "\<lparr>steps = [step_at [3, 4]]\<rparr>"
  let ?route = "\<lparr>distance = 2500, duration = 300, legs = [?leg, ?leg2]\<rparr>"
  let ?route2 = "\<lparr>distance = 9000, duration = 900, legs = [\<lparr>steps = [step_at [5, 6]]\<rparr>]\<rparr>"
  let ?json = "\<lparr>code = ''Ok'', routes = [?route, ?route2]\<rparr>"
  let ?get = "always \<lparr>status_code = 200, json = Inr ?json\<rparr>"
  have h1: "2 \<le> length (coordinates uoft)" by (simp add: uoft_def)
  have h2: "2 \<le> length (coordinates cn_tower)" by (simp add: cn_tower_def)
  have h3: "?get (osrm_url str0 ''driving'' (coordinates uoft ! 0) (coordinates uoft ! 1)
           (coordinates cn_tower ! 0) (coordinates cn_tower ! 1))
       = Inr \<lparr>status_code = 200, json = Inr ?json\<rparr>"
    by (simp add: always_def)
  have h4: "code ?json = ''Ok''" by simp
  have h5: "routes ?json = ?route # [?route2]" by simp
  have h6: "legs ?route = ?leg # [?leg2]" by simp
  have "route_to str0 ?get uoft cn_tower ''driving'' =
      Inr \<lparr>route = map (\<lambda>s. rev (location (maneuver s))) (steps ?leg),
           length_r = distance ?route, duration_r = duration ?route\<rparr>"
    using route_to_first_route_first_leg
      [of uoft cn_tower ?get str0 "''driving''" 200 ?json ?route "[?route2]" ?leg "[?leg2]",
        OF h1 h2 h3 h4 h5 h6] .
  then have "route_to str0 ?get uoft cn_tower ''driving'' =
      Inr \<lparr>route = [[2, 1]], length_r = 2500, duration_r = 300\<rparr>"
    by (simp add: step_at_def)
  with h1 h2 h3 show ?thesis by blast
qed

text \<open>
  Claim C8.  The claim says that every returned route has a non-negative length, a
  non-negative duration and a non-empty path.  \<^verbatim>\<open>route_to\<close> checks none of the three:
  it hands on the distance and the duration of the response as they are and makes one
  path point per step.  A response with code \<^verbatim>\<open>"Ok"\<close>, distance and duration \<open>-1\<close>
  and a leg without steps is returned as a route of length \<open>-1\<close>, duration \<open>-1\<close> and
  empty path.
\<close>

theorem route_to_negative_empty:
  "route_to str0 (always (osrm_ok (- 1) (- 1) [])) uoft cn_tower ''driving''
     = Inr \<lparr>route = [], length_r = - 1, duration_r = - 1\<rparr>
   \<and> length_r \<lparr>route = [], length_r = - 1, duration_r = - 1\<rparr> < 0
   \<and> duration_r \<lparr>route = [], length_r = - 1, duration_r = - 1\<rparr> < 0
   \<and> route \<lparr>route = [], length_r = - 1, duration_r = - 1\<rparr> = []"
  by (simp add: route_to_def get_item_def always_def osrm_ok_def uoft_def cn_tower_def)

text \<open>
  Claim C8, amended.  On an accepted routing response that reports a non-negative distance
  and a non-negative duration for its first route and at least one step in that route's
  first leg, the returned route has a non-negative length, a non-negative duration and a
  non-empty path, with one point per step.
\<close>

theorem route_to_bounds:
  assumes "2 \<le> length (coordinates self)"
    and "2 \<le> length (coordinates destination)"
    and "get (osrm_url str mode (coordinates self ! 0) (coordinates self ! 1)
                (coordinates destination ! 0) (coordinates destination ! 1))
           = Inr \<lparr>status_code = sc, json = Inr response_json\<rparr>"
    and "code response_json = ''Ok''"
    and "routes response_json = route0 # other_routes"
    and "legs route0 = leg0 # other_legs"
    and "0 \<le> distance route0"
    and "0 \<le> duration route0"
    and "steps leg0 \<noteq> []"
  shows "\<exists>r. route_to str get self destination mode = Inr r
           \<and> 0 \<le> length_r r \<and> 0 \<le> duration_r r
           \<and> route r \<noteq> [] \<and> length (route r) = length (steps leg0)"
proof -
  have "route_to str get self destination mode =
      Inr \<lparr>route = map (\<lambda>s. rev (location (maneuver s))) (steps leg0),
           length_r = distance route0, duration_r = duration route0\<rparr>"
    using route_to_answered [of self destination get str mode sc response_json, OF assms(1-3)]
      assms(4-6) by simp
  then show ?thesis using assms(7-9) by simp
qed

theorem route_to_bounds_witness:
  "(2::nat) \<le> length (coordinates uoft) \<and> 2 \<le> length (coordinates cn_tower)
   \<and> always (osrm_ok 2500 300 [[-79.40, 43.66]])
        (osrm_url str0 ''foot'' (coordinates uoft ! 0) (coordinates uoft ! 1)
           (coordinates cn_tower ! 0) (coordinates cn_tower ! 1))
       = Inr \<lparr>status_code = 200,
              json = Inr \<lparr>code = ''Ok'',
                routes = [\<lparr>distance = 2500, duration = 300,
                  legs = [\<lparr>steps = [step_at [-79.40, 43.66]]\<rparr>]\<rparr>]\<rparr>\<rparr>
   \<and> (0::real) \<le> 2500 \<and> (0::real) \<le> 300
   \<and> steps \<lparr>steps = [step_at [-79.40, 43.66]]\<rparr> \<noteq> []
   \<and> (\<exists>r. route_to str0 (always (osrm_ok 2500 300 [[-79.40, 43.66]])) uoft cn_tower ''foot''
             = Inr r
          \<and> 0 \<le> length_r r \<and> 0 \<le> duration_r r \<and> route r \<noteq> [] \<and> length (route r) = 1)"
proof -
  let ?get = "always (osrm_ok 2500 300 [[-79.40, 43.66]])"
  let ?leg = "\<lparr>steps = [step_at [-79.40, 43.66]]\<rparr>"
  let ?route = "\<lparr>distance = 2500, duration = 300, legs = [?leg]\<rparr>"
  let ?json = "\<lparr>code = ''Ok'', routes = [?route]\<rparr>"
  have h1: "2 \<le> length (coordinates uoft)" by (simp add: uoft_def)
  have h2: "2 \<le> length (coordinates cn_tower)" by (simp add: cn_tower_def)
  have h3: "?get (osrm_url str0 ''foot'' (coordinates uoft ! 0) (coordinates uoft ! 1)
           (coordinates cn_tower ! 0) (coordinates cn_tower ! 1))
       = Inr \<lparr>status_code = 200, json = Inr ?json\<rparr>"
    by (simp add: always_def osrm_ok_def)
  have h4: "code ?json = ''Ok''" by simp
  have h5: "routes ?json = ?route # []" by simp
  have h6: "legs ?route = ?leg # []" by simp
  have h7: "0 \<le> distance ?route" by simp
  have h8: "0 \<le> duration ?route" by simp
  have h9: "steps ?leg \<noteq> []" by simp
  have "\<exists>r. route_to str0 ?get uoft cn_tower ''foot'' = Inr r
           \<and> 0 \<le> length_r r \<and> 0 \<le> duration_r r
           \<and> route r \<noteq> [] \<and> length (route r) = length (steps ?leg)"
    using route_to_bounds [of uoft cn_tower ?get str0 "''foot''" 200 ?json ?route "[]" ?leg "[]",
        OF h1 h2 h3 h4 h5 h6 h7 h8 h9] .
  then have "\<exists>r. route_to str0 ?get uoft cn_tower ''foot'' = Inr r
           \<and> 0 \<le> length_r r \<and> 0 \<le> duration_r r \<and> route r \<noteq> [] \<and> length (route r) = 1"
    by simp
  with h1 h2 h3 h9 show ?thesis by simp
qed


section \<open>Properties of \<^verbatim>\<open>__eq__\<close> and \<^verbatim>\<open>__hash__\<close>\<close>

text \<open>
  Claim C7.  Two \<^verbatim>\<open>poi\<close> objects are equal exactly when their identifiers are equal:
  two objects with the same identifier are equal whatever their addresses and
  coordinates, and changing the address and the coordinates of either object does not
  change whether they are equal.
\<close>

theorem eq_iff_osmid:
  "(eq p q \<longleftrightarrow> osmid p = osmid q)
   \<and> eq \<lparr>address = a1, osmid = i, coordinates = c1\<rparr> \<lparr>address = a2, osmid = i, coordinates = c2\<rparr>
   \<and> (eq (p\<lparr>address := a1, coordinates := c1\<rparr>) (q\<lparr>address := a2, coordinates := c2\<rparr>)
        \<longleftrightarrow> eq p q)"
  by (simp add: eq_def)

text \<open>The witness: two resolutions whose responses share the identifier 12345 and differ
  in their label give equal objects; two objects with different identifiers differ.\<close>

theorem eq_iff_osmid_witness:
  "geo_decode (always (ok_with [uoft_node])) ''university of toronto'' ''canada'' ''node''
     = Inr \<lparr>address = ''University of Toronto'', osmid = 12345,
            coordinates = [-79.3973638, 43.6620257]\<rparr>
   \<and> geo_decode (always (ok_with [uoft_node_stale])) ''u of t'' ''canada'' ''node''
     = Inr \<lparr>address = ''U of T'', osmid = 12345, coordinates = [-79.3973638, 43.6620257]\<rparr>
   \<and> eq \<lparr>address = ''University of Toronto'', osmid = 12345,
           coordinates = [-79.3973638, 43.6620257]\<rparr>
         \<lparr>address = ''U of T'', osmid = 12345, coordinates = [-79.3973638, 43.6620257]\<rparr>
   \<and> \<not> eq uoft cn_tower"
proof -
  have a: "geo_decode (always (ok_with [uoft_node])) ''university of toronto'' ''canada'' ''node''
     = Inr \<lparr>address = ''University of Toronto'', osmid = 12345,
            coordinates = [-79.3973638, 43.6620257]\<rparr>"
    by (simp add: geo_decode_def always_def ok_with_def get_item_def while_place.simps uoft_node_def)
  have b: "geo_decode (always (ok_with [uoft_node_stale])) ''u of t'' ''canada'' ''node''
     = Inr \<lparr>address = ''U of T'', osmid = 12345, coordinates = [-79.3973638, 43.6620257]\<rparr>"
    by (simp add: geo_decode_def always_def ok_with_def get_item_def while_place.simps
          uoft_node_stale_def)
  have c: "eq \<lparr>address = ''University of Toronto'', osmid = 12345,
           coordinates = [-79.3973638, 43.6620257]\<rparr>
         \<lparr>address = ''U of T'', osmid = 12345, coordinates = [-79.3973638, 43.6620257]\<rparr>"
    using eq_iff_osmid [of uoft uoft "''University of Toronto''" 12345
        "[-79.3973638, 43.6620257]" "''U of T''" "[-79.3973638, 43.6620257]"]
    by blast
  have d: "\<not> eq uoft cn_tower"
    using eq_iff_osmid [of uoft cn_tower "[]" 0 "[]" "[]" "[]"]
    by (simp add: uoft_def cn_tower_def)
  from a b c d show ?thesis by blast
qed

text \<open>
  Claim C10.  \<^verbatim>\<open>__hash__\<close> returns the identifier as it is; so two objects that
  \<^verbatim>\<open>__eq__\<close> holds equal have the same hash.
\<close>

theorem hash_poi_osmid:
  "hash_poi p = osmid p \<and> (eq p q \<longrightarrow> hash_poi p = hash_poi q)"
  by (simp add: hash_poi_def eq_def)

theorem hash_poi_osmid_witness:
  "eq uoft (uoft\<lparr>address := ''U of T''\<rparr>)
   \<and> hash_poi uoft = 12345
   \<and> hash_poi uoft = hash_poi (uoft\<lparr>address := ''U of T''\<rparr>)"
proof -
  have e: "eq uoft (uoft\<lparr>address := ''U of T''\<rparr>)" by (simp add: eq_def)
  have "hash_poi uoft = osmid uoft"
    using hash_poi_osmid [of uoft uoft] by blast
  then have h: "hash_poi uoft = 12345" by (simp add: uoft_def)
  have "hash_poi uoft = hash_poi (uoft\<lparr>address := ''U of T''\<rparr>)"
    using hash_poi_osmid [of uoft "uoft\<lparr>address := ''U of T''\<rparr>"] e by blast
  with e h show ?thesis by blast
qed


section \<open>What \<^verbatim>\<open>route_to\<close> does to the store\<close>

text \<open>Appending an object leaves every object already in the store where it was.\<close>

lemma get_poi_append:
  "a < length h \<Longrightarrow> get_poi (h @ [ob]) a = get_poi h a"
  by (simp add: get_poi_def nth_append)

lemma get_poi_Some_less: "get_poi h a = Some p \<Longrightarrow> a < length h"
  by (simp add: get_poi_def split: if_splits)

text \<open>
  Claim C9.  A call of \<^verbatim>\<open>route_to\<close> leaves every object that was in the store as it
  was, the origin and the destination among them, with all their attributes (also when
  both are the same object).  A call that raises leaves the store as it was.  A call
  that returns has allocated exactly one object, the returned dictionary, at an address
  that held no object before the call (so it is none of the dictionaries returned by
  earlier calls, and neither argument), and that dictionary is what \<^verbatim>\<open>route_to\<close>
  computes from the answer to this call's request.
\<close>

theorem route_to_store_frame:
  assumes "route_to_store str get h self destination mode = (res, h')"
  shows "take (length h) h' = h
       \<and> get_poi h' self = get_poi h self
       \<and> get_poi h' destination = get_poi h destination
       \<and> (case res of
             Inl e \<Rightarrow> h' = h
           | Inr a \<Rightarrow>
               a = length h \<and> get_poi h a = None \<and> get_dict h a = None
             \<and> a \<noteq> self \<and> a \<noteq> destination
             \<and> (\<exists>s d r. get_poi h self = Some s \<and> get_poi h destination = Some d
                   \<and> route_to str get s d mode = Inr r
                   \<and> h' = h @ [Dict r] \<and> get_dict h' a = Some r))"
proof (cases "get_poi h self")
  case None
  with assms show ?thesis by (auto simp: route_to_store_def)
next
  case (Some s)
  note s = this
  show ?thesis
  proof (cases "get_poi h destination")
    case None
    with s assms show ?thesis by (auto simp: route_to_store_def)
  next
    case (Some d)
    note d = this
    show ?thesis
    proof (cases "route_to str get s d mode")
      case (Inl e)
      with s d assms show ?thesis by (auto simp: route_to_store_def)
    next
      case (Inr r)
      with s d assms have res: "res = Inr (length h)" and h': "h' = h @ [Dict r]"
        by (auto simp: route_to_store_def alloc_def)
      have ls: "self < length h" using s by (rule get_poi_Some_less)
      have ld: "destination < length h" using d by (rule get_poi_Some_less)
      have g: "get_dict h' (length h) = Some r"
        by (simp add: h' get_dict_def)
      have n: "get_poi h (length h) = None" "get_dict h (length h) = None"
        by (simp_all add: get_poi_def get_dict_def)
      show ?thesis
        using ls ld s d Inr g n
        by (simp add: res h' get_poi_append)
    qed
  qed
qed

text \<open>The witness: a store with two places; the call returns the new address 2, and both
  places are read back unchanged.\<close>

theorem route_to_store_frame_witness:
  "route_to_store str0 (always (osrm_ok 2500 300 [[-79.40, 43.66], [-79.38, 43.65]]))
       [Poi uoft, Poi cn_tower] 0 1 ''driving''
     = (Inr 2, [Poi uoft, Poi cn_tower,
                Dict \<lparr>route = [[43.66, -79.40], [43.65, -79.38]],
                      length_r = 2500, duration_r = 300\<rparr>])
   \<and> get_poi [Poi uoft, Poi cn_tower,
                Dict \<lparr>route = [[43.66, -79.40], [43.65, -79.38]],
                      length_r = 2500, duration_r = 300\<rparr>] 0 = Some uoft
   \<and> get_poi [Poi uoft, Poi cn_tower,
                Dict \<lparr>route = [[43.66, -79.40], [43.65, -79.38]],
                      length_r = 2500, duration_r = 300\<rparr>] 1 = Some cn_tower
   \<and> get_dict [Poi uoft, Poi cn_tower] 2 = None"
proof -
  let ?get = "always (osrm_ok 2500 300 [[-79.40, 43.66], [-79.38, 43.65]])"
  let ?h = "[Poi uoft, Poi cn_tower]"
  let ?d = "Dict \<lparr>route = [[43.66, -79.40], [43.65, -79.38]], length_r = 2500, duration_r = 300\<rparr>"
  have r: "route_to str0 ?get uoft cn_tower ''driving'' =
      Inr \<lparr>route = [[43.66, -79.40], [43.65, -79.38]], length_r = 2500, duration_r = 300\<rparr>"
    by (simp add: route_to_def get_item_def always_def osrm_ok_def uoft_def cn_tower_def
          step_at_def)
  have e: "route_to_store str0 ?get ?h 0 1 ''driving'' = (Inr 2, ?h @ [?d])"
    using r by (simp add: route_to_store_def get_poi_def alloc_def)
  have f: "get_poi (?h @ [?d]) 0 = get_poi ?h 0 \<and> get_poi (?h @ [?d]) 1 = get_poi ?h 1
      \<and> get_dict ?h 2 = None"
    using route_to_store_frame [OF e] by simp
  have p: "get_poi ?h 0 = Some uoft" "get_poi ?h 1 = Some cn_tower"
    by (simp_all add: get_poi_def)
  from e f p show ?thesis by simp
qed

end
